theory Spec2Isabelle
  imports Complex_Main
begin

section \<open>JavaScript values\<close>

text \<open>
  A JavaScript number is an IEEE-754 double. A finite double is represented by the
  rational number it denotes (the sign of zero is not tracked: \<open>-0\<close> and \<open>0\<close> are
  both falsy and both serialise as \<open>0\<close>).
\<close>

datatype jsnum = NaN | PosInf | NegInf | Fin rat

text \<open>
  Request bodies, Prisma \<open>Json\<close> columns and \<open>any\<close>-typed values: the JSON values,
  and \<open>undefined\<close> for an absent property.
\<close>

datatype json =
    JUndefined
  | JNull
  | JBool bool
  | JNum jsnum
  | JStr string
  | JArr "json list"
  | JObj "(string \<times> json) list"

text \<open>
  What a handler can catch: a \<open>TypeError\<close> raised by the language (reading a property of
  \<open>undefined\<close> or \<open>null\<close>, calling something that is not a function), or an error thrown
  by a collaborator (Prisma, the Razorpay SDK), of which the handlers only read
  \<open>error.statusCode\<close> and \<open>error.error.description\<close>.
\<close>

datatype error = TypeError | ExternalError "int option" "string option"

text \<open>Truthiness (\<open>!v\<close>, \<open>v && ...\<close>, \<open>v || ...\<close>).\<close>

fun truthy :: "json \<Rightarrow> bool" where
  "truthy JUndefined = False"
| "truthy JNull = False"
| "truthy (JBool b) = b"
| "truthy (JNum n) = (n \<noteq> NaN \<and> n \<noteq> Fin 0)"
| "truthy (JStr s) = (s \<noteq> [])"
| "truthy (JArr xs) = True"
| "truthy (JObj kvs) = True"

text \<open>
  The property read \<open>v.k\<close>. It throws on \<open>undefined\<close> and \<open>null\<close>, looks the key up in an
  object, and is \<open>undefined\<close> on every other value: none of the keys the handlers read
  (\<open>order\<close>, \<open>guestDetails\<close>, \<open>email\<close>, \<open>items\<close>, \<open>id\<close>, \<open>selectedVariant\<close>, \<open>quantity\<close>,
  \<open>price\<close>, \<open>attributes\<close>, \<open>name\<close>, \<open>city\<close>, \<open>totalAmount\<close>, \<open>apiKey\<close>, \<open>apiSecret\<close>, ...) is a
  property of a string, number, boolean or array.
\<close>

fun get :: "json \<Rightarrow> string \<Rightarrow> error + json" where
  "get JUndefined k = Inl TypeError"
| "get JNull k = Inl TypeError"
| "get (JObj kvs) k = Inr (case map_of kvs k of Some v \<Rightarrow> v | None \<Rightarrow> JUndefined)"
| "get v k = Inr JUndefined"

text \<open>Optional chaining \<open>v?.k\<close>.\<close>

definition opt_get :: "json \<Rightarrow> string \<Rightarrow> json" where
  "opt_get v k = (case get v k of Inl e \<Rightarrow> JUndefined | Inr x \<Rightarrow> x)"

text \<open>
  The decimal rendering of an integer (of the index in \<open>v[i]\<close>, and of what \<open>Date.now()\<close>
  returns).
\<close>

fun digits :: "nat \<Rightarrow> string" where
  "digits n =
     (if n < 10 then [''0123456789'' ! n]
      else digits (n div 10) @ [''0123456789'' ! (n mod 10)])"

definition show_int :: "int \<Rightarrow> string" where
  "show_int i = (if i < 0 then ''-'' @ digits (nat (- i)) else digits (nat i))"

text \<open>
  The element read \<open>v[i]\<close>: the element of an array, the character of a string, the
  property named by the index of an object.
\<close>

fun get_index :: "json \<Rightarrow> nat \<Rightarrow> error + json" where
  "get_index JUndefined i = Inl TypeError"
| "get_index JNull i = Inl TypeError"
| "get_index (JArr xs) i = Inr (if i < length xs then xs ! i else JUndefined)"
| "get_index (JStr s) i = Inr (if i < length s then JStr [s ! i] else JUndefined)"
| "get_index (JObj kvs) i = get (JObj kvs) (digits i)"
| "get_index v i = Inr JUndefined"

text \<open>Sequencing of steps that may throw: the first exception ends the block.\<close>

definition bind :: "error + 'a \<Rightarrow> ('a \<Rightarrow> error + 'b) \<Rightarrow> error + 'b" where
  "bind m f = (case m of Inl e \<Rightarrow> Inl e | Inr x \<Rightarrow> f x)"

fun map_err :: "('a \<Rightarrow> error + 'b) \<Rightarrow> 'a list \<Rightarrow> error + 'b list" where
  "map_err f [] = Inr []"
| "map_err f (x # xs) = bind (f x) (\<lambda>y. bind (map_err f xs) (\<lambda>ys. Inr (y # ys)))"

text \<open>
  \<open>v.map(f)\<close>: \<open>Array.prototype.map\<close> on an array; a \<open>TypeError\<close> on anything else
  (\<open>undefined\<close> has no properties, and no other JSON value has a callable \<open>map\<close>).
\<close>

fun array_map :: "(json \<Rightarrow> error + 'b) \<Rightarrow> json \<Rightarrow> error + 'b list" where
  "array_map f (JArr xs) = map_err f xs"
| "array_map f v = Inl TypeError"

text \<open>\<open>s.includes(t)\<close> on strings.\<close>

fun starts_with :: "string \<Rightarrow> string \<Rightarrow> bool" where
  "starts_with s [] = True"
| "starts_with [] (c # t) = False"
| "starts_with (d # s) (c # t) = (d = c \<and> starts_with s t)"

fun str_includes :: "string \<Rightarrow> string \<Rightarrow> bool" where
  "str_includes [] t = (t = [])"
| "str_includes (d # s) t = (starts_with (d # s) t \<or> str_includes s t)"

subsection \<open>Numbers\<close>

text \<open>
  Rounding a rational to the nearest double (round to nearest, ties to even; 53 bits
  of precision, gradual underflow below \<open>2\<^sup>-\<^sup>1\<^sup>0\<^sup>2\<^sup>2\<close>, overflow to infinity from \<open>2\<^sup>1\<^sup>0\<^sup>2\<^sup>4\<close>).
  \<open>exponent_of q\<close> is \<open>\<lfloor>log\<^sub>2 \<bar>q\<bar>\<rfloor>\<close>.
\<close>

fun bits :: "nat \<Rightarrow> nat" where
  "bits n = (if n = 0 then 0 else Suc (bits (n div 2)))"

definition exponent_of :: "rat \<Rightarrow> int" where
  "exponent_of q =
     (let (a, b) = quotient_of \<bar>q\<bar>;
          e0 = int (bits (nat a)) - int (bits (nat b))
      in if 2 powi e0 \<le> \<bar>q\<bar> then e0 else e0 - 1)"

definition round_half_even :: "rat \<Rightarrow> int" where
  "round_half_even x =
     (let f = \<lfloor>x\<rfloor>; d = x - of_int f
      in if d < 1 / 2 then f else if 1 / 2 < d then f + 1 else if even f then f else f + 1)"

definition double_of_rat :: "rat \<Rightarrow> jsnum" where
  "double_of_rat q =
     (if q = 0 then Fin 0
      else let e = max (exponent_of q) (- 1022);
               u = 2 powi (e - 52);
               r = of_int (round_half_even (q / u)) * u
           in if 2 powi 1024 \<le> \<bar>r\<bar> then (if 0 < q then PosInf else NegInf) else Fin r)"

text \<open>The product \<open>a * b\<close> of two numbers.\<close>

fun js_mul :: "jsnum \<Rightarrow> jsnum \<Rightarrow> jsnum" where
  "js_mul (Fin a) (Fin b) = double_of_rat (a * b)"
| "js_mul NaN y = NaN"
| "js_mul x NaN = NaN"
| "js_mul (Fin a) PosInf = (if a = 0 then NaN else if 0 < a then PosInf else NegInf)"
| "js_mul (Fin a) NegInf = (if a = 0 then NaN else if 0 < a then NegInf else PosInf)"
| "js_mul PosInf (Fin b) = (if b = 0 then NaN else if 0 < b then PosInf else NegInf)"
| "js_mul NegInf (Fin b) = (if b = 0 then NaN else if 0 < b then NegInf else PosInf)"
| "js_mul PosInf PosInf = PosInf"
| "js_mul PosInf NegInf = NegInf"
| "js_mul NegInf PosInf = NegInf"
| "js_mul NegInf NegInf = PosInf"

text \<open>
  \<open>Math.round\<close>: the integer closest to the argument, the one towards \<open>+\<infinity>\<close> of two
  equally close ones.
\<close>

fun Math_round :: "jsnum \<Rightarrow> jsnum" where
  "Math_round (Fin q) = Fin (of_int \<lfloor>q + 1 / 2\<rfloor>)"
| "Math_round x = x"

text \<open>
  \<open>ToNumber\<close>, applied by \<open>*\<close> to its operands. The conversion of a string (and of an
  array or object, which goes through its string) is the language's number parser, taken
  as the parameter \<open>conv\<close>.
\<close>

fun ToNumber :: "(json \<Rightarrow> jsnum) \<Rightarrow> json \<Rightarrow> jsnum" where
  "ToNumber conv JUndefined = NaN"
| "ToNumber conv JNull = Fin 0"
| "ToNumber conv (JBool b) = Fin (if b then 1 else 0)"
| "ToNumber conv (JNum n) = n"
| "ToNumber conv v = conv v"

text \<open>
  \<open>ToString\<close>, applied by a template literal to each interpolated value. The rendering of
  a number, an array or an object is taken as the parameter \<open>conv\<close>.
\<close>

fun ToString :: "(json \<Rightarrow> string) \<Rightarrow> json \<Rightarrow> string" where
  "ToString conv (JStr s) = s"
| "ToString conv JUndefined = ''undefined''"
| "ToString conv JNull = ''null''"
| "ToString conv (JBool b) = (if b then ''true'' else ''false'')"
| "ToString conv v = conv v"

section \<open>Persistence layer, processor and module state\<close>

text \<open>A row of the \<open>integration\<close> table (keyed by its unique \<open>name\<close>).\<close>

record integration =
  enabled :: bool
  settings :: json

text \<open>The client \<open>new Razorpay({ key_id, key_secret })\<close> constructs.\<close>

record razorpay =
  key_id :: json
  key_secret :: json

text \<open>The request \<open>razorpay.orders.create\<close> receives.\<close>

record options =
  amount :: jsnum
  currency :: string
  receipt :: string

record order_item =
  productId :: json
  variantId :: json
  quantity :: json
  priceAtPurchase :: json
  variantSnapshot :: json

text \<open>The \<open>data\<close> argument of \<open>prisma.order.create\<close>, with its nested items.\<close>

record order_data =
  totalAmount :: json
  status :: string
  shippingAddress :: json
  paymentType :: json
  deliveryType :: json
  deliveryCharge :: json
  appliedCouponCode :: json
  discountAmount :: json
  userId :: json
  customerName :: json
  paymentStatus :: string
  items :: "order_item list"

text \<open>A persisted order: the identifier the database assigns, and the data written.\<close>

record order_row =
  order_id :: string
  data :: order_data

text \<open>The calls made to the persistence layer.\<close>

datatype query =
    IntegrationFindUnique string
  | OrderCreate order_data
  | ActivityLogCreate string
  | ProductUpdate string "(string \<times> json) list"
  | ProductVariantUpdate string "(string \<times> json) list"

text \<open>
  The process and its database: the two module-level variables of
  \<open>razorpay.service.ts\<close>, the tables the handlers touch, the log of every call made to the
  persistence layer (oldest first) and of every request sent to the payment processor.
\<close>

record world =
  razorpayInstance :: "razorpay option"
  lastFetched :: int
  integrations :: "(string \<times> integration) list"
  products :: "(string \<times> (string \<times> json) list) list"
  productVariants :: "(string \<times> (string \<times> json) list) list"
  orders :: "order_row list"
  activityLogs :: "string list"
  queries :: "query list"
  sent :: "(razorpay \<times> options) list"

text \<open>
  What a handler does not control: whether a call to the persistence layer fails
  (\<open>fault env n q\<close> is the error the \<open>n\<close>-th call, \<open>q\<close>, ends with, if any), the clock readings
  of the three \<open>Date.now()\<close> calls, the answer of the payment processor, the identifier the
  database assigns, and the language's string conversions.
\<close>

record env =
  fault :: "nat \<Rightarrow> query \<Rightarrow> error option"
  t_check :: int
  t_built :: int
  t_receipt :: int
  processor :: "razorpay \<Rightarrow> options \<Rightarrow> error + json"
  fresh_id :: string
  string_to_number :: "json \<Rightarrow> jsnum"
  value_to_string :: "json \<Rightarrow> string"

definition run_query :: "env \<Rightarrow> query \<Rightarrow> world \<Rightarrow> error option \<times> world" where
  "run_query env q w = (fault env (length (queries w)) q, w\<lparr>queries := queries w @ [q]\<rparr>)"

text \<open>\<open>prisma.integration.findUnique({ where: { name } })\<close>: the row, or \<open>null\<close>.\<close>

definition integration_findUnique ::
  "env \<Rightarrow> string \<Rightarrow> world \<Rightarrow> (error + integration option) \<times> world" where
  "integration_findUnique env name w =
     (case run_query env (IntegrationFindUnique name) w of
        (Some e, w1) \<Rightarrow> (Inl e, w1)
      | (None, w1) \<Rightarrow> (Inr (map_of (integrations w1) name), w1))"

text \<open>\<open>prisma.order.create({ data })\<close>: the order and its items are written together.\<close>

definition order_create :: "env \<Rightarrow> order_data \<Rightarrow> world \<Rightarrow> (error + order_row) \<times> world" where
  "order_create env d w =
     (case run_query env (OrderCreate d) w of
        (Some e, w1) \<Rightarrow> (Inl e, w1)
      | (None, w1) \<Rightarrow>
          (let row = \<lparr>order_id = fresh_id env, data = d\<rparr>
           in (Inr row, w1\<lparr>orders := orders w1 @ [row]\<rparr>)))"

text \<open>\<open>prisma.activityLog.create({ data: { message } })\<close>.\<close>

definition activityLog_create :: "env \<Rightarrow> string \<Rightarrow> world \<Rightarrow> (error + unit) \<times> world" where
  "activityLog_create env message w =
     (case run_query env (ActivityLogCreate message) w of
        (Some e, w1) \<Rightarrow> (Inl e, w1)
      | (None, w1) \<Rightarrow> (Inr (), w1\<lparr>activityLogs := activityLogs w1 @ [message]\<rparr>))"






section \<open>razorpay.service.ts\<close>

text \<open>
  \<open>getRazorpayInstance\<close>: the cached client while it is less than a minute old, else the
  client built from the stored configuration, else \<open>null\<close>. The \<open>catch\<close> block and the
  fall-through both clear the cached client. (The constructor is given a truthy key and
  secret, which is all it checks: it does not throw.)
\<close>

definition getRazorpayInstance :: "env \<Rightarrow> world \<Rightarrow> razorpay option \<times> world" where
  "getRazorpayInstance env w =
     (let cacheValid = (t_check env - lastFetched w < 60000) in
      if razorpayInstance w \<noteq> None \<and> cacheValid then (razorpayInstance w, w)
      else
        (case integration_findUnique env ''Razorpay'' w of
           (Inl e, w1) \<Rightarrow> (None, w1\<lparr>razorpayInstance := None\<rparr>)
         | (Inr razorpaySettings, w1) \<Rightarrow>
             (case razorpaySettings of
                None \<Rightarrow> (None, w1\<lparr>razorpayInstance := None\<rparr>)
              | Some s \<Rightarrow>
                  if enabled s then
                    (let keyId = opt_get (settings s) ''apiKey'';
                         keySecret = opt_get (settings s) ''apiSecret''
                     in if truthy keyId \<and> truthy keySecret then
                          (let c = \<lparr>key_id = keyId, key_secret = keySecret\<rparr>
                           in (Some c, w1\<lparr>razorpayInstance := Some c, lastFetched := t_built env\<rparr>))
                        else (None, w1\<lparr>razorpayInstance := None\<rparr>))
                  else (None, w1\<lparr>razorpayInstance := None\<rparr>))))"

section \<open>order.controller.ts\<close>

text \<open>
  What a handler answers: \<open>res.status(n).json(body)\<close>, \<open>next(error)\<close>, or nothing at all
  when it throws outside its \<open>try\<close> block (the promise it returns is rejected).
\<close>

datatype payload =
    Message string
  | PaymentIntent json json
  | OrderPlaced order_row

datatype response = Json nat payload | Next error | Unhandled error

record request =
  user :: json
  body :: json

subsection \<open>createRazorpayOrder\<close>

text \<open>The \<open>catch\<close> block of \<open>createRazorpayOrder\<close>.\<close>

fun payment_error :: "error \<Rightarrow> response" where
  "payment_error TypeError = Next TypeError"
| "payment_error (ExternalError sc d) =
     (if sc = Some 401 \<or> (case d of None \<Rightarrow> False
                            | Some s \<Rightarrow> s \<noteq> [] \<and> str_includes s ''Authentication failed'')
      then Json 503 (Message
        ''Razorpay authentication failed. Please check your Key ID and Key Secret in Admin Panel > Settings > Integrations.'')
      else Next (ExternalError sc d))"

definition createRazorpayOrder :: "env \<Rightarrow> world \<Rightarrow> request \<Rightarrow> response \<times> world" where
  "createRazorpayOrder env w req =
     (case get (body req) ''totalAmount'' of
        Inl e \<Rightarrow> (Unhandled e, w)
      | Inr amt \<Rightarrow>
          if \<not> truthy amt then (Json 400 (Message ''Total amount is required''), w)
          else
            (case getRazorpayInstance env w of
               (None, w1) \<Rightarrow>
                 (Json 503 (Message
                    ''Payment service is currently unavailable. Please check and enable Razorpay in Integrations with correct keys.''),
                  w1)
             | (Some razorpay, w1) \<Rightarrow>
                 (case integration_findUnique env ''Razorpay'' w1 of
                    (Inl e, w2) \<Rightarrow> (payment_error e, w2)
                  | (Inr razorpaySettings, w2) \<Rightarrow>
                      (let keyId = (case razorpaySettings of
                                      None \<Rightarrow> JUndefined
                                    | Some s \<Rightarrow> opt_get (settings s) ''apiKey'')
                       in if \<not> truthy keyId then
                            (Json 503 (Message ''Razorpay Key ID is not configured.''), w2)
                          else
                            (let opts = \<lparr>amount = Math_round (js_mul
                                            (ToNumber (string_to_number env) amt) (Fin 100)),
                                         currency = ''INR'',
                                         receipt = ''receipt_order_'' @ show_int (t_receipt env)\<rparr>;
                                 w3 = w2\<lparr>sent := sent w2 @ [(razorpay, opts)]\<rparr>
                             in case bind (processor env razorpay opts) (\<lambda>order. get order ''id'') of
                                  Inl e \<Rightarrow> (payment_error e, w3)
                                | Inr orderId \<Rightarrow> (Json 200 (PaymentIntent orderId keyId), w3))))))"

subsection \<open>placeOrder\<close>

text \<open>The callback of \<open>orderData.items.map\<close>.\<close>

definition order_item_of :: "json \<Rightarrow> error + order_item" where
  "order_item_of item =
     bind (get item ''id'') (\<lambda>pid.
     bind (bind (get item ''selectedVariant'') (\<lambda>sv. get sv ''id'')) (\<lambda>vid.
     bind (get item ''quantity'') (\<lambda>qty.
     bind (bind (get item ''selectedVariant'') (\<lambda>sv. get sv ''price'')) (\<lambda>price.
     bind (bind (get item ''selectedVariant'') (\<lambda>sv. get sv ''attributes'')) (\<lambda>attrs.
     Inr \<lparr>productId = pid, variantId = vid, quantity = qty,
          priceAtPurchase = price, variantSnapshot = attrs\<rparr>)))))"

text \<open>The \<open>data\<close> object passed to \<open>prisma.order.create\<close>.\<close>

definition order_data_of :: "json \<Rightarrow> json \<Rightarrow> order_item list \<Rightarrow> error + order_data" where
  "order_data_of uid orderData orderItems =
     bind (get orderData ''totalAmount'') (\<lambda>tot.
     bind (get orderData ''shippingAddress'') (\<lambda>address.
     bind (get orderData ''paymentType'') (\<lambda>ptype.
     bind (get orderData ''deliveryType'') (\<lambda>dtype.
     bind (get orderData ''deliveryCharge'') (\<lambda>charge.
     bind (get orderData ''appliedCouponCode'') (\<lambda>coupon.
     bind (get orderData ''discountAmount'') (\<lambda>discount.
     bind (get orderData ''customerName'') (\<lambda>cname.
     bind (get orderData ''paymentType'') (\<lambda>ptype2.
     Inr \<lparr>totalAmount = tot, status = ''Processing'', shippingAddress = address,
          paymentType = ptype, deliveryType = dtype, deliveryCharge = charge,
          appliedCouponCode = coupon, discountAmount = discount, userId = uid,
          customerName = cname,
          paymentStatus = (if ptype2 = JStr ''cod'' then ''Pending'' else ''Success''),
          items = orderItems\<rparr>)))))))))"

text \<open>The text of the activity-feed entry.\<close>

definition activity_message :: "env \<Rightarrow> json \<Rightarrow> error + string" where
  "activity_message env orderData =
     bind (bind (get orderData ''items'') (\<lambda>its. get_index its 0)) (\<lambda>first.
       (let n = opt_get first ''name'';
            firstItemName = (if truthy n then n else JStr ''an item'')
        in bind (bind (get orderData ''shippingAddress'') (\<lambda>a. get a ''city'')) (\<lambda>city.
             Inr (''Someone in '' @ ToString (value_to_string env) city
                  @ '' just purchased a '' @ [CHR 0x22]
                  @ ToString (value_to_string env) firstItemName @ [CHR 0x22] @ ''.''))))"

definition placeOrder :: "env \<Rightarrow> world \<Rightarrow> request \<Rightarrow> response \<times> world" where
  "placeOrder env w req =
     (case bind (get (body req) ''order'') (\<lambda>od.
             bind (get (body req) ''guestDetails'') (\<lambda>gd. Inr (od, gd))) of
        Inl e \<Rightarrow> (Unhandled e, w)
      | Inr (orderData, guestDetails) \<Rightarrow>
          (let uid = opt_get (user req) ''id'' in
           if \<not> truthy uid \<and> \<not> truthy (opt_get guestDetails ''email'') then
             (Json 401 (Message ''Authentication is required to place an order.''), w)
           else
             (case bind (bind (get orderData ''items'') (array_map order_item_of))
                     (order_data_of uid orderData) of
                Inl e \<Rightarrow> (Next e, w)
              | Inr d \<Rightarrow>
                  (case order_create env d w of
                     (Inl e, w1) \<Rightarrow> (Next e, w1)
                   | (Inr newOrder, w1) \<Rightarrow>
                       (case activity_message env orderData of
                          Inl e \<Rightarrow> (Next e, w1)
                        | Inr message \<Rightarrow>
                            (case activityLog_create env message w1 of
                               (Inl e, w2) \<Rightarrow> (Next e, w2)
                             | (Inr u, w2) \<Rightarrow> (Json 201 (OrderPlaced newOrder), w2)))))))"

section \<open>Example inputs\<close>

text \<open>
  A database that answers every call, a configured and enabled gateway, and a checkout
  of one shirt shipped to Pune.
\<close>

definition ex_env :: env where
  "ex_env = \<lparr>fault = (\<lambda>n q. None), t_check = 30000, t_built = 30005, t_receipt = 30010,
              processor = (\<lambda>c opts. Inr (JObj [(''id'', JStr ''order_A1'')])),
              fresh_id = ''64f0c0ffee0000000000a001'',
              string_to_number = (\<lambda>v. NaN), value_to_string = (\<lambda>v. ''?'')\<rparr>"

text \<open>The same, with the activity feed failing, and with every call failing.\<close>

definition ex_env_feed_down :: env where
  "ex_env_feed_down = ex_env\<lparr>fault := (\<lambda>n q. case q of
       ActivityLogCreate m \<Rightarrow> Some (ExternalError None (Some ''feed unavailable''))
     | _ \<Rightarrow> None)\<rparr>"

definition ex_env_db_down :: env where
  "ex_env_db_down = ex_env\<lparr>fault :=
     (\<lambda>n q. Some (ExternalError None (Some ''feed unavailable'')))\<rparr>"

text \<open>The same, fifteen seconds later.\<close>

definition ex_env_later :: env where
  "ex_env_later = ex_env\<lparr>t_check := 45000\<rparr>"

definition ex_config :: integration where
  "ex_config = \<lparr>enabled = True,
     settings = JObj [(''apiKey'', JStr ''rzp_key''), (''apiSecret'', JStr ''rzp_secret'')]\<rparr>"

text \<open>The default row \<open>getIntegrations\<close> creates: disabled, with empty settings.\<close>

definition ex_off :: integration where
  "ex_off = \<lparr>enabled = False, settings = JObj []\<rparr>"

definition ex_client :: razorpay where
  "ex_client = \<lparr>key_id = JStr ''rzp_key'', key_secret = JStr ''rzp_secret''\<rparr>"

definition ex_world :: world where
  "ex_world = \<lparr>razorpayInstance = None, lastFetched = 0,
     integrations = [(''Razorpay'', ex_config)],
     products = [(''p1'', [(''name'', JStr ''Shirt''), (''price'', JNum (Fin 499))]),
                 (''p2'', [(''name'', JStr ''Cap''), (''price'', JNum (Fin 199))])],
     productVariants = [(''v1'', [(''price'', JNum (Fin 499))]),
                        (''v2'', [(''price'', JNum (Fin 199))])],
     orders = [], activityLogs = [], queries = [], sent = []\<rparr>"

definition ex_world_off :: world where
  "ex_world_off = ex_world\<lparr>integrations := [(''Razorpay'', ex_off)]\<rparr>"

text \<open>
  The process after a first call has built and cached a client, and an administrator has
  then switched the gateway off and removed its credentials.
\<close>

definition ex_world_switched_off :: world where
  "ex_world_switched_off =
     (snd (getRazorpayInstance ex_env ex_world))\<lparr>integrations := [(''Razorpay'', ex_off)]\<rparr>"

definition ex_item :: json where
  "ex_item = JObj [(''id'', JStr ''p1''), (''name'', JStr ''Shirt''), (''quantity'', JNum (Fin 2)),
     (''selectedVariant'', JObj [(''id'', JStr ''v1''), (''price'', JNum (Fin 499)),
        (''attributes'', JObj [(''size'', JStr ''M'')])])]"

definition ex_order :: "json list \<Rightarrow> string \<Rightarrow> json" where
  "ex_order its ptype = JObj [(''items'', JArr its), (''totalAmount'', JNum (Fin 998)),
     (''shippingAddress'', JObj [(''city'', JStr ''Pune'')]), (''paymentType'', JStr ptype)]"

definition ex_guest :: "json list \<Rightarrow> string \<Rightarrow> string \<Rightarrow> request" where
  "ex_guest its ptype email = \<lparr>user = JUndefined,
     body = JObj [(''order'', ex_order its ptype),
                  (''guestDetails'', JObj [(''email'', JStr email)])]\<rparr>"

definition ex_anonymous :: request where
  "ex_anonymous = \<lparr>user = JUndefined, body = JObj [(''order'', ex_order [ex_item] ''cod'')]\<rparr>"

definition ex_data :: "order_item list \<Rightarrow> string \<Rightarrow> string \<Rightarrow> order_data" where
  "ex_data its ptype pstatus = \<lparr>totalAmount = JNum (Fin 998), status = ''Processing'',
     shippingAddress = JObj [(''city'', JStr ''Pune'')], paymentType = JStr ptype,
     deliveryType = JUndefined, deliveryCharge = JUndefined, appliedCouponCode = JUndefined,
     discountAmount = JUndefined, userId = JUndefined, customerName = JUndefined,
     paymentStatus = pstatus, items = its\<rparr>"

definition ex_order_item :: order_item where
  "ex_order_item = \<lparr>productId = JStr ''p1'', variantId = JStr ''v1'', quantity = JNum (Fin 2),
     priceAtPurchase = JNum (Fin 499), variantSnapshot = JObj [(''size'', JStr ''M'')]\<rparr>"

text \<open>
  A payment-intent request for 19.999: the body holds the double nearest to that decimal,
  as the JSON parser produces it.
\<close>

definition ex_payment :: request where
  "ex_payment = \<lparr>user = JUndefined,
     body = JObj [(''totalAmount'', JNum (double_of_rat (19999 / 1000)))]\<rparr>"

text \<open>Two guest checkouts that differ in the guest's e-mail address only.\<close>

definition ex_guest_a :: request where
  "ex_guest_a = ex_guest [ex_item] ''cod'' ''a@b.in''"

definition ex_guest_z :: request where
  "ex_guest_z = ex_guest [ex_item] ''cod'' ''z@y.in''"

text \<open>
  The accessor called 64995 ms after the client was cached, with the database answering
  and with the lookup failing; the process with a client cached; and the same after the
  gateway's row was removed.
\<close>

definition ex_env_stale :: env where
  "ex_env_stale = ex_env\<lparr>t_check := 95000\<rparr>"

definition ex_env_lookup_down :: env where
  "ex_env_lookup_down = ex_env\<lparr>t_check := 95000, fault := (\<lambda>n q. case q of
       IntegrationFindUnique name \<Rightarrow> Some (ExternalError None (Some ''connection lost''))
     | _ \<Rightarrow> None)\<rparr>"

definition ex_world_cached :: world where
  "ex_world_cached = snd (getRazorpayInstance ex_env ex_world)"

definition ex_world_row_deleted :: world where
  "ex_world_row_deleted = ex_world_cached\<lparr>integrations := []\<rparr>"







text \<open>A payment-intent request for 1.335.\<close>

definition ex_payment_1335 :: request where
  "ex_payment_1335 = \<lparr>user = JUndefined,
     body = JObj [(''totalAmount'', JNum (double_of_rat (1335 / 1000)))]\<rparr>"

section \<open>Basic facts\<close>

lemmas ex_defs = ex_env_def ex_env_feed_down_def ex_env_db_down_def ex_config_def ex_world_def
  ex_item_def ex_order_def ex_guest_def ex_anonymous_def ex_data_def ex_order_item_def

lemmas accessor_defs = getRazorpayInstance_def integration_findUnique_def run_query_def
  opt_get_def Let_def

lemmas placeOrder_defs = placeOrder_def order_item_of_def order_data_of_def activity_message_def
  order_create_def activityLog_create_def run_query_def opt_get_def Let_def


lemma bind_Inl [simp]: "bind (Inl e) f = Inl e"
  by (simp add: bind_def)

lemma bind_Inr [simp]: "bind (Inr x) f = f x"
  by (simp add: bind_def)

lemma bind_eq_Inr: "bind m f = Inr y \<longleftrightarrow> (\<exists>x. m = Inr x \<and> f x = Inr y)"
  by (cases m) simp_all

text \<open>A value that has one property readable has them all readable.\<close>

lemma get_total: "get v k = Inr x \<Longrightarrow> get v k' = Inr (opt_get v k')"
  by (cases v) (simp_all add: opt_get_def)

lemma map_err_Inr:
  "map_err f xs = Inr ys \<longleftrightarrow> list_all2 (\<lambda>x y. f x = Inr y) xs ys"
proof (induction xs arbitrary: ys)
  case Nil
  show ?case by auto
next
  case (Cons x xs)
  show ?case
    by (cases ys) (auto simp: bind_eq_Inr Cons.IH)
qed

lemma array_map_Inr:
  "array_map f v = Inr ys \<Longrightarrow> \<exists>xs. v = JArr xs \<and> map_err f xs = Inr ys"
  by (cases v) simp_all

lemma order_item_of_Inr:
  assumes "order_item_of item = Inr it"
  shows "get item ''id'' = Inr (productId it) \<and>
         get item ''quantity'' = Inr (quantity it) \<and>
         (\<exists>sv. get item ''selectedVariant'' = Inr sv \<and>
               get sv ''id'' = Inr (variantId it) \<and>
               get sv ''price'' = Inr (priceAtPurchase it) \<and>
               get sv ''attributes'' = Inr (variantSnapshot it))"
  using assms by (auto simp: order_item_of_def bind_eq_Inr)

lemma order_data_of_Inr:
  assumes "order_data_of uid od its = Inr d"
  shows "items d = its \<and> userId d = uid \<and>
         paymentType d = opt_get od ''paymentType'' \<and>
         paymentStatus d =
           (if opt_get od ''paymentType'' = JStr ''cod'' then ''Pending'' else ''Success'')"
  using assms by (auto simp: order_data_of_def bind_eq_Inr opt_get_def)

lemma order_create_orders:
  "order_create env d w = (r, w1) \<Longrightarrow>
     (case r of Inl e \<Rightarrow> orders w1 = orders w
      | Inr row \<Rightarrow> row = \<lparr>order_id = fresh_id env, data = d\<rparr> \<and> orders w1 = orders w @ [row])"
  by (auto simp: order_create_def run_query_def Let_def split: option.splits)

lemma activityLog_create_orders:
  "activityLog_create env m w = (r, w1) \<Longrightarrow> orders w1 = orders w"
  by (auto simp: activityLog_create_def run_query_def split: option.splits)


text \<open>
  The only way \<open>placeOrder\<close> adds to the \<open>order\<close> table: the payload's items are an array,
  every element of it maps to an item record, and the row written holds exactly the
  \<open>data\<close> object built from them.
\<close>

lemma placeOrder_created:
  assumes "placeOrder env w req = (resp, w')" and "orders w' \<noteq> orders w"
  shows "\<exists>od xs its d.
           get (body req) ''order'' = Inr od \<and>
           get od ''items'' = Inr (JArr xs) \<and>
           map_err order_item_of xs = Inr its \<and>
           order_data_of (opt_get (user req) ''id'') od its = Inr d \<and>
           orders w' = orders w @ [\<lparr>order_id = fresh_id env, data = d\<rparr>]"
  using assms
  apply (simp add: placeOrder_def Let_def bind_eq_Inr split: sum.splits prod.splits if_splits)
  apply (auto dest!: array_map_Inr order_create_orders activityLog_create_orders simp: bind_eq_Inr)
  done









lemma getRazorpayInstance_miss:
  assumes "razorpayInstance w = None \<or> 60000 \<le> t_check env - lastFetched w"
  shows "queries (snd (getRazorpayInstance env w))
         = queries w @ [IntegrationFindUnique ''Razorpay'']"
  using assms
  by (auto simp: getRazorpayInstance_def Let_def integration_findUnique_def run_query_def
      split: option.splits sum.splits prod.splits)

lemma getRazorpayInstance_unavailable:
  assumes "razorpayInstance w = None \<or> 60000 \<le> t_check env - lastFetched w"
    and "fault env (length (queries w)) (IntegrationFindUnique ''Razorpay'') \<noteq> None
         \<or> map_of (integrations w) ''Razorpay'' = None
         \<or> (\<exists>s. map_of (integrations w) ''Razorpay'' = Some s \<and>
                (\<not> enabled s \<or> \<not> truthy (opt_get (settings s) ''apiKey'')
                 \<or> \<not> truthy (opt_get (settings s) ''apiSecret'')))"
  shows "getRazorpayInstance env w =
           (None, w\<lparr>queries := queries w @ [IntegrationFindUnique ''Razorpay''],
                    razorpayInstance := None\<rparr>)"
  using assms
  by (auto simp: getRazorpayInstance_def Let_def integration_findUnique_def run_query_def
      split: option.splits)

lemma getRazorpayInstance_None_only:
  assumes "fst (getRazorpayInstance env w) = None"
  shows "(razorpayInstance w = None \<or> 60000 \<le> t_check env - lastFetched w)
       \<and> (fault env (length (queries w)) (IntegrationFindUnique ''Razorpay'') \<noteq> None
         \<or> map_of (integrations w) ''Razorpay'' = None
         \<or> (\<exists>s. map_of (integrations w) ''Razorpay'' = Some s \<and>
                (\<not> enabled s \<or> \<not> truthy (opt_get (settings s) ''apiKey'')
                 \<or> \<not> truthy (opt_get (settings s) ''apiSecret''))))"
  using assms
  by (auto simp: getRazorpayInstance_def Let_def integration_findUnique_def run_query_def
      split: option.splits if_splits)

subsection \<open>Rounding to a double\<close>

declare bits.simps [simp del]

lemma bits_pos: "0 < n \<Longrightarrow> 0 < bits n"
  by (subst bits.simps) simp

text \<open>\<open>bits n\<close> is the length of the binary numeral of \<open>n\<close>.\<close>

lemma bits_bounds: "0 < n \<Longrightarrow> 2 ^ (bits n - 1) \<le> n \<and> n < 2 ^ bits n"
proof (induction n rule: bits.induct)
  case (1 n)
  show ?case
  proof (cases "n div 2 = 0")
    case True
    with "1.prems" have "n = 1" by (auto simp: div_eq_0_iff)
    then show ?thesis
      by (simp add: bits.simps [of "Suc 0"] bits.simps [of 0])
  next
    case False
    with "1.IH" "1.prems" have IH:
      "2 ^ (bits (n div 2) - 1) \<le> n div 2" "n div 2 < 2 ^ bits (n div 2)"
      by auto
    have b: "bits n = Suc (bits (n div 2))"
      using "1.prems" by (subst bits.simps) simp
    have pos: "0 < bits (n div 2)"
      using False by (simp add: bits_pos)
    have "2 ^ (bits n - 1) = 2 * 2 ^ (bits (n div 2) - 1)"
      using pos b by (cases "bits (n div 2)") simp_all
    also have "\<dots> \<le> 2 * (n div 2)" using IH(1) by simp
    also have "\<dots> \<le> n" by simp
    finally have lo: "2 ^ (bits n - 1) \<le> n" .
    have "n < 2 * (n div 2) + 2" by presburger
    also have "\<dots> \<le> 2 * 2 ^ bits (n div 2)" using IH(2) by simp
    finally have "n < 2 ^ bits n" using b by simp
    with lo show ?thesis by simp
  qed
qed

lemma powi_le_D: "(2::rat) powi m \<le> x \<Longrightarrow> x < 2 powi n \<Longrightarrow> m < n"
proof (rule ccontr)
  assume a: "2 powi m \<le> x" "x < 2 powi n" and "\<not> m < n"
  then have "n \<le> m" by simp
  then have "(2::rat) powi n \<le> 2 powi m" by (rule power_int_increasing) simp
  with a show False by simp
qed

lemma powi_less_D: "(2::rat) powi m < x \<Longrightarrow> x < 2 powi n \<Longrightarrow> m < n"
  using powi_le_D [of m x n] by simp

lemma exponent_of_bounds:
  assumes "q \<noteq> 0"
  shows "\<exists>e0. exponent_of q = (if 2 powi e0 \<le> \<bar>q\<bar> then e0 else e0 - 1)
          \<and> 2 powi (e0 - 1) < \<bar>q\<bar> \<and> \<bar>q\<bar> < 2 powi (e0 + 1)"
proof -
  obtain a b where ab: "quotient_of \<bar>q\<bar> = (a, b)" by (cases "quotient_of \<bar>q\<bar>")
  then have b: "0 < b" and r: "\<bar>q\<bar> = of_int a / of_int b"
    by (simp_all add: quotient_of_denom_pos quotient_of_div)
  from assms have "0 < \<bar>q\<bar>" by simp
  with r b have a: "0 < a" by (simp add: zero_less_divide_iff)
  define A B where "A = nat a" and "B = nat b"
  with a b have AB: "0 < A" "0 < B" and r': "\<bar>q\<bar> = of_nat A / of_nat B"
    using r by simp_all
  define na nb where "na = bits A" and "nb = bits B"
  from bits_bounds [OF AB(1)] bits_bounds [OF AB(2)] bits_pos [OF AB(1)] bits_pos [OF AB(2)]
  have nat_bounds: "2 ^ (na - 1) \<le> A" "A < 2 ^ na" "2 ^ (nb - 1) \<le> B" "B < 2 ^ nb"
    and pos: "0 < na" "0 < nb"
    by (simp_all add: na_def nb_def)
  have 1: "(2::rat) ^ (na - 1) \<le> of_nat A"
    using nat_bounds(1) by (metis of_nat_le_iff of_nat_numeral of_nat_power)
  have 2: "(of_nat A :: rat) < 2 ^ na"
    using nat_bounds(2) by (metis of_nat_less_iff of_nat_numeral of_nat_power)
  have 3: "(2::rat) ^ (nb - 1) \<le> of_nat B"
    using nat_bounds(3) by (metis of_nat_le_iff of_nat_numeral of_nat_power)
  have 4: "(of_nat B :: rat) < 2 ^ nb"
    using nat_bounds(4) by (metis of_nat_less_iff of_nat_numeral of_nat_power)
  define e0 where "e0 = int na - int nb"
  have up: "\<bar>q\<bar> < 2 powi (e0 + 1)"
  proof -
    have "\<bar>q\<bar> < 2 ^ na / 2 ^ (nb - 1)"
      unfolding r' using 2 3 AB by (intro frac_less) simp_all
    also have "\<dots> = 2 powi (int na - int (nb - 1))"
      by (simp add: power_int_diff)
    also have "int na - int (nb - 1) = e0 + 1"
      using pos by (simp add: e0_def)
    finally show ?thesis .
  qed
  have lo: "2 powi (e0 - 1) < \<bar>q\<bar>"
  proof -
    have "e0 - 1 = int (na - 1) - int nb"
      using pos by (simp add: e0_def of_nat_diff)
    then have "(2::rat) powi (e0 - 1) = 2 powi (int (na - 1) - int nb)"
      by simp
    also have "\<dots> = 2 ^ (na - 1) / 2 ^ nb"
      by (simp add: power_int_diff)
    also have "\<dots> < of_nat A / of_nat B"
      using 1 4 AB by (intro frac_less2) simp_all
    finally show ?thesis by (simp add: r')
  qed
  have "exponent_of q = (if 2 powi e0 \<le> \<bar>q\<bar> then e0 else e0 - 1)"
    by (simp add: exponent_of_def ab e0_def na_def nb_def A_def B_def Let_def)
  with up lo show ?thesis by blast
qed

text \<open>\<open>exponent_of q\<close> is the exponent of the binade \<open>q\<close> lies in.\<close>

lemma exponent_of_eq:
  assumes "2 powi e \<le> \<bar>q\<bar>" and "\<bar>q\<bar> < 2 powi (e + 1)"
  shows "exponent_of q = e"
proof -
  have "(0::rat) < 2 powi e" by (rule zero_less_power_int) simp
  from this assms(1) have "0 < \<bar>q\<bar>" by (rule less_le_trans)
  then have "q \<noteq> 0" by simp
  from exponent_of_bounds [OF this] obtain e0 where
    ex: "exponent_of q = (if 2 powi e0 \<le> \<bar>q\<bar> then e0 else e0 - 1)"
    and lo: "2 powi (e0 - 1) < \<bar>q\<bar>" and up: "\<bar>q\<bar> < 2 powi (e0 + 1)"
    by blast
  show ?thesis
  proof (cases "2 powi e0 \<le> \<bar>q\<bar>")
    case True
    from powi_le_D [OF True assms(2)] powi_le_D [OF assms(1) up] ex True
    show ?thesis by simp
  next
    case False
    then have "\<bar>q\<bar> < 2 powi e0" by simp
    from powi_le_D [OF assms(1) this] powi_less_D [OF lo assms(2)] ex False
    show ?thesis by simp
  qed
qed

lemma round_half_even_eq:
  assumes "of_int n - 1 / 2 < x" and "x < of_int n + 1 / 2"
  shows "round_half_even x = n"
proof -
  have "\<lfloor>x\<rfloor> = n \<or> \<lfloor>x\<rfloor> = n - 1"
    using assms by linarith
  then show ?thesis
  proof
    assume f: "\<lfloor>x\<rfloor> = n"
    then have "x - of_int \<lfloor>x\<rfloor> < 1 / 2" using assms by simp
    with f show ?thesis by (simp add: round_half_even_def Let_def)
  next
    assume f: "\<lfloor>x\<rfloor> = n - 1"
    then have "1 / 2 < x - of_int \<lfloor>x\<rfloor>" using assms by simp
    with f show ?thesis by (simp add: round_half_even_def Let_def)
  qed
qed

text \<open>
  Away from a tie and from overflow, \<open>double_of_rat q\<close> is the multiple of the binade's
  spacing \<open>2\<^sup>e\<^sup>-\<^sup>5\<^sup>2\<close> closest to \<open>q\<close>.
\<close>

lemma double_of_rat_eq:
  assumes "2 powi e \<le> \<bar>q\<bar>" and "\<bar>q\<bar> < 2 powi (e + 1)" and "- 1022 \<le> e"
    and "of_int n - 1 / 2 < q / 2 powi (e - 52)" and "q / 2 powi (e - 52) < of_int n + 1 / 2"
    and "\<bar>rat_of_int n * 2 powi (e - 52)\<bar> < 2 powi 1024"
  shows "double_of_rat q = Fin (of_int n * 2 powi (e - 52))"
proof -
  have "(0::rat) < 2 powi e" by (rule zero_less_power_int) simp
  from this assms(1) have "0 < \<bar>q\<bar>" by (rule less_le_trans)
  then have q: "q \<noteq> 0" by simp
  have e: "max (exponent_of q) (- 1022) = e"
    using exponent_of_eq [OF assms(1,2)] assms(3) by simp
  have r: "round_half_even (q / 2 powi (e - 52)) = n"
    using assms(4,5) by (rule round_half_even_eq)
  show ?thesis
    using q assms(6) by (simp add: double_of_rat_def e r Let_def del: power_int_numeral)
qed

text \<open>
  The double nearest to 19.999 is \<open>5629218059236409 / 2\<^sup>4\<^sup>8\<close>; its product with 100 is
  the double \<open>8795653217556889 / 2\<^sup>4\<^sup>2\<close> (printed as 1999.8999999999999), which
  \<open>Math.round\<close> takes to 2000.
\<close>

lemma double_19_999:
  "double_of_rat (19999 / 1000) = Fin (5629218059236409 / 281474976710656)"
  using double_of_rat_eq [of 4 "19999 / 1000" 5629218059236409] by simp

lemma product_19_999:
  "double_of_rat (5629218059236409 / 281474976710656 * 100)
   = Fin (8795653217556889 / 4398046511104)"
  using double_of_rat_eq [of 10 "5629218059236409 / 281474976710656 * 100" 8795653217556889]
  by simp

lemma round_19_999:
  "Math_round (js_mul (Fin (5629218059236409 / 281474976710656)) (Fin 100)) = Fin 2000"
proof -
  have "\<lfloor>(8795653217556889 / 4398046511104 :: rat) + 1 / 2\<rfloor> = 2000"
    by (rule floor_unique) simp_all
  then have "Math_round (Fin (8795653217556889 / 4398046511104)) = Fin 2000"
    by (simp only: Math_round.simps) simp
  then show ?thesis
    by (simp only: js_mul.simps product_19_999)
qed

text \<open>
  The double nearest to 1.335 is \<open>1503076375634903 / 2\<^sup>5\<^sup>0\<close>, a little below 1.335; its
  exact product with 100 is a little below 133.5, and the double nearest to that product is
  133.5 itself, which \<open>Math.round\<close> takes to 134.
\<close>

lemma double_1_335:
  "double_of_rat (1335 / 1000) = Fin (1503076375634903 / 1125899906842624)"
proof -
  have "double_of_rat (1335 / 1000) = Fin (rat_of_int 6012305502539612 * 2 powi (0 - 52))"
    by (rule double_of_rat_eq) simp_all
  then show ?thesis by simp
qed

lemma product_1_335:
  "double_of_rat (1503076375634903 / 1125899906842624 * 100) = Fin (267 / 2)"
proof -
  have "double_of_rat (1503076375634903 / 1125899906842624 * 100)
        = Fin (rat_of_int 4697113673859072 * 2 powi (7 - 52))"
    by (rule double_of_rat_eq) simp_all
  then show ?thesis by simp
qed

lemma round_1_335:
  "Math_round (js_mul (Fin (1503076375634903 / 1125899906842624)) (Fin 100)) = Fin 134"
proof -
  have "\<lfloor>(267 / 2 :: rat) + 1 / 2\<rfloor> = 134"
    by (rule floor_unique) simp_all
  then have "Math_round (Fin (267 / 2)) = Fin 134"
    by (simp only: Math_round.simps) simp
  then show ?thesis
    by (simp only: js_mul.simps product_1_335)
qed

subsection \<open>What the accessor and the lookup leave alone\<close>

lemma getRazorpayInstance_sent: "sent (snd (getRazorpayInstance env w)) = sent w"
  by (simp add: getRazorpayInstance_def integration_findUnique_def run_query_def Let_def
      split: option.splits)

lemma integration_findUnique_sent: "sent (snd (integration_findUnique env name w)) = sent w"
  by (simp add: integration_findUnique_def run_query_def split: option.splits)

subsection \<open>The example inputs, evaluated\<close>

lemma ex_first_call:
  "getRazorpayInstance ex_env ex_world =
     (Some ex_client,
      ex_world\<lparr>razorpayInstance := Some ex_client, lastFetched := 30005,
               queries := [IntegrationFindUnique ''Razorpay'']\<rparr>)"
  by (simp add: accessor_defs ex_defs ex_client_def)

lemma ex_cached:
  "ex_world_cached =
     ex_world\<lparr>razorpayInstance := Some ex_client, lastFetched := 30005,
              queries := [IntegrationFindUnique ''Razorpay'']\<rparr>"
  by (simp add: ex_world_cached_def ex_first_call)

lemma ex_switched_off:
  "ex_world_switched_off =
     ex_world\<lparr>razorpayInstance := Some ex_client, lastFetched := 30005,
              queries := [IntegrationFindUnique ''Razorpay''],
              integrations := [(''Razorpay'', ex_off)]\<rparr>"
  by (simp add: ex_world_switched_off_def ex_first_call)

lemma ex_placeOrder_cod:
  "placeOrder ex_env ex_world (ex_guest [ex_item] ''cod'' ''a@b.in'') =
     (Json 201 (OrderPlaced \<lparr>order_id = ''64f0c0ffee0000000000a001'',
                             data = ex_data [ex_order_item] ''cod'' ''Pending''\<rparr>),
      ex_world\<lparr>orders := [\<lparr>order_id = ''64f0c0ffee0000000000a001'',
                             data = ex_data [ex_order_item] ''cod'' ''Pending''\<rparr>],
               activityLogs := [''Someone in Pune just purchased a '' @ [CHR 0x22]
                                @ ''Shirt'' @ [CHR 0x22] @ ''.''],
               queries := [OrderCreate (ex_data [ex_order_item] ''cod'' ''Pending''),
                           ActivityLogCreate (''Someone in Pune just purchased a ''
                                @ [CHR 0x22] @ ''Shirt'' @ [CHR 0x22] @ ''.'')]\<rparr>)"
  by (simp add: placeOrder_defs ex_defs)

lemma ex_placeOrder_empty:
  "placeOrder ex_env ex_world (ex_guest [] ''card'' ''a@b.in'') =
     (Json 201 (OrderPlaced \<lparr>order_id = ''64f0c0ffee0000000000a001'',
                             data = ex_data [] ''card'' ''Success''\<rparr>),
      ex_world\<lparr>orders := [\<lparr>order_id = ''64f0c0ffee0000000000a001'',
                             data = ex_data [] ''card'' ''Success''\<rparr>],
               activityLogs := [''Someone in Pune just purchased a '' @ [CHR 0x22]
                                @ ''an item'' @ [CHR 0x22] @ ''.''],
               queries := [OrderCreate (ex_data [] ''card'' ''Success''),
                           ActivityLogCreate (''Someone in Pune just purchased a ''
                                @ [CHR 0x22] @ ''an item'' @ [CHR 0x22] @ ''.'')]\<rparr>)"
  by (simp add: placeOrder_defs ex_defs)

lemma ex_placeOrder_feed_down:
  "placeOrder ex_env_feed_down ex_world (ex_guest [ex_item] ''cod'' ''a@b.in'') =
     (Next (ExternalError None (Some ''feed unavailable'')),
      ex_world\<lparr>orders := [\<lparr>order_id = ''64f0c0ffee0000000000a001'',
                             data = ex_data [ex_order_item] ''cod'' ''Pending''\<rparr>],
               queries := [OrderCreate (ex_data [ex_order_item] ''cod'' ''Pending''),
                           ActivityLogCreate (''Someone in Pune just purchased a ''
                                @ [CHR 0x22] @ ''Shirt'' @ [CHR 0x22] @ ''.'')]\<rparr>)"
  by (simp add: placeOrder_defs ex_defs)

lemma ex_payment_call:
  "createRazorpayOrder ex_env ex_world ex_payment =
     (Json 200 (PaymentIntent (JStr ''order_A1'') (JStr ''rzp_key'')),
      ex_world\<lparr>razorpayInstance := Some ex_client, lastFetched := 30005,
               queries := [IntegrationFindUnique ''Razorpay'', IntegrationFindUnique ''Razorpay''],
               sent := [(ex_client, \<lparr>amount = Fin 2000, currency = ''INR'',
                                     receipt = ''receipt_order_30010''\<rparr>)]\<rparr>)"
proof -
  have t: "get (body ex_payment) ''totalAmount''
           = Inr (JNum (Fin (5629218059236409 / 281474976710656)))"
    by (simp add: ex_payment_def double_19_999)
  show ?thesis
    unfolding createRazorpayOrder_def t
    by (simp add: ex_first_call round_19_999 del: js_mul.simps Math_round.simps)
       (simp add: integration_findUnique_def run_query_def ex_defs ex_client_def opt_get_def
          show_int_def round_19_999 Let_def del: js_mul.simps Math_round.simps)
qed



lemma ex_payment_1335_call:
  "createRazorpayOrder ex_env ex_world ex_payment_1335 =
     (Json 200 (PaymentIntent (JStr ''order_A1'') (JStr ''rzp_key'')),
      ex_world\<lparr>razorpayInstance := Some ex_client, lastFetched := 30005,
               queries := [IntegrationFindUnique ''Razorpay'', IntegrationFindUnique ''Razorpay''],
               sent := [(ex_client, \<lparr>amount = Fin 134, currency = ''INR'',
                                     receipt = ''receipt_order_30010''\<rparr>)]\<rparr>)"
proof -
  have t: "get (body ex_payment_1335) ''totalAmount''
           = Inr (JNum (Fin (1503076375634903 / 1125899906842624)))"
    unfolding ex_payment_1335_def double_1_335 by simp
  show ?thesis
    unfolding createRazorpayOrder_def t
    by (simp add: ex_first_call round_1_335 del: js_mul.simps Math_round.simps)
       (simp add: integration_findUnique_def run_query_def ex_defs ex_client_def opt_get_def
          show_int_def round_1_335 Let_def del: js_mul.simps Math_round.simps)
qed

section \<open>The gateway-client accessor\<close>

text \<open>
  C1, as stated: a stored configuration that is disabled, or lacks a credential, makes the
  accessor return no client whatever the cache holds. The cache check comes first and
  reads no configuration: here a client was built and cached at 30005 ms, the gateway was
  then switched off and its credentials removed, and the call 14995 ms later still returns
  the cached client.
\<close>

theorem disabled_config_served_from_cache:
  "map_of (integrations ex_world_switched_off) ''Razorpay'' = Some ex_off
   \<and> enabled ex_off = False
   \<and> get (settings ex_off) ''apiKey'' = Inr JUndefined
   \<and> get (settings ex_off) ''apiSecret'' = Inr JUndefined
   \<and> t_check ex_env_later - lastFetched ex_world_switched_off = 14995
   \<and> getRazorpayInstance ex_env_later ex_world_switched_off
       = (Some ex_client, ex_world_switched_off)"
  by (simp add: ex_switched_off ex_off_def ex_env_later_def getRazorpayInstance_def ex_defs)

text \<open>
  C1, amended: when the stored gateway configuration is disabled or has no (truthy)
  \<open>apiKey\<close> or \<open>apiSecret\<close>, and no client is cached or at least 60000 ms have passed since
  the cached one was built, the accessor returns no client and leaves no client cached.
\<close>

theorem unavailable_config_without_cache:
  assumes "map_of (integrations w) ''Razorpay'' = Some s"
    and "\<not> enabled s \<or> \<not> truthy (opt_get (settings s) ''apiKey'')
         \<or> \<not> truthy (opt_get (settings s) ''apiSecret'')"
    and "razorpayInstance w = None \<or> 60000 \<le> t_check env - lastFetched w"
  shows "fst (getRazorpayInstance env w) = None \<and>
         razorpayInstance (snd (getRazorpayInstance env w)) = None"
  using assms
  by (auto simp: getRazorpayInstance_def Let_def integration_findUnique_def run_query_def
      split: option.splits sum.splits prod.splits)

theorem unavailable_config_without_cache_witness:
  "fst (getRazorpayInstance ex_env ex_world_off) = None \<and>
   razorpayInstance (snd (getRazorpayInstance ex_env ex_world_off)) = None"
  using unavailable_config_without_cache [of ex_world_off ex_off ex_env]
  by (simp add: ex_world_off_def ex_off_def ex_world_def)

text \<open>
  C5: a call made while a client is cached and fewer than 60000 ms have passed since its
  construction time was recorded returns that client and changes nothing: in particular
  it makes no call to the persistence layer.
\<close>

theorem cache_hit_no_lookup:
  assumes "razorpayInstance w = Some c" and "t_check env - lastFetched w < 60000"
  shows "getRazorpayInstance env w = (Some c, w) \<and>
         queries (snd (getRazorpayInstance env w)) = queries w"
  using assms by (simp add: getRazorpayInstance_def)

theorem cache_hit_no_lookup_witness:
  "getRazorpayInstance ex_env_later (snd (getRazorpayInstance ex_env ex_world))
     = (Some ex_client, snd (getRazorpayInstance ex_env ex_world)) \<and>
   queries (snd (getRazorpayInstance ex_env_later (snd (getRazorpayInstance ex_env ex_world))))
     = [IntegrationFindUnique ''Razorpay'']"
  using cache_hit_no_lookup [of "snd (getRazorpayInstance ex_env ex_world)" ex_client ex_env_later]
  by (simp add: ex_first_call ex_env_later_def)

text \<open>
  C9: the accessor returns no client only on a cache miss (no client cached, or the cached
  one at least 60000 ms old) on which the lookup fails, finds no row, or finds a row that
  is disabled or lacks a key or a secret. Every such call, also one that starts with a
  client cached, leaves no client cached, so the next call, at any time and whatever the
  database then answers, looks the configuration up again.
\<close>

theorem unavailable_never_cached:
  "((razorpayInstance w = None \<or> 60000 \<le> t_check env - lastFetched w)
      \<and> (fault env (length (queries w)) (IntegrationFindUnique ''Razorpay'') \<noteq> None
         \<or> map_of (integrations w) ''Razorpay'' = None
         \<or> (\<exists>s. map_of (integrations w) ''Razorpay'' = Some s \<and>
                (\<not> enabled s \<or> \<not> truthy (opt_get (settings s) ''apiKey'')
                 \<or> \<not> truthy (opt_get (settings s) ''apiSecret''))))
     \<longrightarrow> getRazorpayInstance env w
           = (None, w\<lparr>queries := queries w @ [IntegrationFindUnique ''Razorpay''],
                      razorpayInstance := None\<rparr>)
         \<and> (\<forall>env'. queries (snd (getRazorpayInstance env'
                  (w\<lparr>queries := queries w @ [IntegrationFindUnique ''Razorpay''],
                     razorpayInstance := None\<rparr>)))
               = queries w @ [IntegrationFindUnique ''Razorpay'',
                              IntegrationFindUnique ''Razorpay'']))
   \<and> (fst (getRazorpayInstance env w) = None
     \<longrightarrow> (razorpayInstance w = None \<or> 60000 \<le> t_check env - lastFetched w)
         \<and> (fault env (length (queries w)) (IntegrationFindUnique ''Razorpay'') \<noteq> None
            \<or> map_of (integrations w) ''Razorpay'' = None
            \<or> (\<exists>s. map_of (integrations w) ''Razorpay'' = Some s \<and>
                   (\<not> enabled s \<or> \<not> truthy (opt_get (settings s) ''apiKey'')
                    \<or> \<not> truthy (opt_get (settings s) ''apiSecret'')))))"
proof (intro conjI impI)
  assume a: "(razorpayInstance w = None \<or> 60000 \<le> t_check env - lastFetched w)
      \<and> (fault env (length (queries w)) (IntegrationFindUnique ''Razorpay'') \<noteq> None
         \<or> map_of (integrations w) ''Razorpay'' = None
         \<or> (\<exists>s. map_of (integrations w) ''Razorpay'' = Some s \<and>
                (\<not> enabled s \<or> \<not> truthy (opt_get (settings s) ''apiKey'')
                 \<or> \<not> truthy (opt_get (settings s) ''apiSecret''))))"
  then show "getRazorpayInstance env w
           = (None, w\<lparr>queries := queries w @ [IntegrationFindUnique ''Razorpay''],
                      razorpayInstance := None\<rparr>)"
    by (intro getRazorpayInstance_unavailable) blast+
  show "\<forall>env'. queries (snd (getRazorpayInstance env'
                  (w\<lparr>queries := queries w @ [IntegrationFindUnique ''Razorpay''],
                     razorpayInstance := None\<rparr>)))
               = queries w @ [IntegrationFindUnique ''Razorpay'',
                              IntegrationFindUnique ''Razorpay'']"
    by (simp add: getRazorpayInstance_miss)
next
  assume "fst (getRazorpayInstance env w) = None"
  then show "razorpayInstance w = None \<or> 60000 \<le> t_check env - lastFetched w"
    using getRazorpayInstance_None_only by blast
next
  assume "fst (getRazorpayInstance env w) = None"
  then show "fault env (length (queries w)) (IntegrationFindUnique ''Razorpay'') \<noteq> None
         \<or> map_of (integrations w) ''Razorpay'' = None
         \<or> (\<exists>s. map_of (integrations w) ''Razorpay'' = Some s \<and>
                (\<not> enabled s \<or> \<not> truthy (opt_get (settings s) ''apiKey'')
                 \<or> \<not> truthy (opt_get (settings s) ''apiSecret'')))"
    using getRazorpayInstance_None_only by blast
qed

theorem unavailable_never_cached_witness:
  "razorpayInstance ex_world_switched_off = Some ex_client
   \<and> getRazorpayInstance ex_env_stale ex_world_switched_off
     = (None, ex_world_switched_off\<lparr>queries := [IntegrationFindUnique ''Razorpay'',
                                                 IntegrationFindUnique ''Razorpay''],
                                      razorpayInstance := None\<rparr>)
   \<and> queries (snd (getRazorpayInstance ex_env_later
        (snd (getRazorpayInstance ex_env_stale ex_world_switched_off))))
     = [IntegrationFindUnique ''Razorpay'', IntegrationFindUnique ''Razorpay'',
        IntegrationFindUnique ''Razorpay'']
   \<and> razorpayInstance ex_world_row_deleted = Some ex_client
   \<and> getRazorpayInstance ex_env_stale ex_world_row_deleted
     = (None, ex_world_row_deleted\<lparr>queries := [IntegrationFindUnique ''Razorpay'',
                                                IntegrationFindUnique ''Razorpay''],
                                     razorpayInstance := None\<rparr>)
   \<and> razorpayInstance ex_world_cached = Some ex_client
   \<and> map_of (integrations ex_world_cached) ''Razorpay'' = Some ex_config
   \<and> getRazorpayInstance ex_env_lookup_down ex_world_cached
     = (None, ex_world_cached\<lparr>queries := [IntegrationFindUnique ''Razorpay'',
                                           IntegrationFindUnique ''Razorpay''],
                                razorpayInstance := None\<rparr>)"
proof -
  have q: "queries ex_world_switched_off = [IntegrationFindUnique ''Razorpay'']"
    "queries ex_world_row_deleted = [IntegrationFindUnique ''Razorpay'']"
    "queries ex_world_cached = [IntegrationFindUnique ''Razorpay'']"
    by (simp_all add: ex_switched_off ex_world_row_deleted_def ex_cached ex_world_def)
  have off: "(razorpayInstance ex_world_switched_off = None
        \<or> 60000 \<le> t_check ex_env_stale - lastFetched ex_world_switched_off)
      \<and> (fault ex_env_stale (length (queries ex_world_switched_off))
            (IntegrationFindUnique ''Razorpay'') \<noteq> None
         \<or> map_of (integrations ex_world_switched_off) ''Razorpay'' = None
         \<or> (\<exists>s. map_of (integrations ex_world_switched_off) ''Razorpay'' = Some s \<and>
                (\<not> enabled s \<or> \<not> truthy (opt_get (settings s) ''apiKey'')
                 \<or> \<not> truthy (opt_get (settings s) ''apiSecret''))))"
    by (simp add: ex_switched_off ex_env_stale_def ex_off_def ex_defs)
  have gone: "(razorpayInstance ex_world_row_deleted = None
        \<or> 60000 \<le> t_check ex_env_stale - lastFetched ex_world_row_deleted)
      \<and> (fault ex_env_stale (length (queries ex_world_row_deleted))
            (IntegrationFindUnique ''Razorpay'') \<noteq> None
         \<or> map_of (integrations ex_world_row_deleted) ''Razorpay'' = None
         \<or> (\<exists>s. map_of (integrations ex_world_row_deleted) ''Razorpay'' = Some s \<and>
                (\<not> enabled s \<or> \<not> truthy (opt_get (settings s) ''apiKey'')
                 \<or> \<not> truthy (opt_get (settings s) ''apiSecret''))))"
    by (simp add: ex_world_row_deleted_def ex_cached ex_env_stale_def ex_defs)
  have down: "(razorpayInstance ex_world_cached = None
        \<or> 60000 \<le> t_check ex_env_lookup_down - lastFetched ex_world_cached)
      \<and> (fault ex_env_lookup_down (length (queries ex_world_cached))
            (IntegrationFindUnique ''Razorpay'') \<noteq> None
         \<or> map_of (integrations ex_world_cached) ''Razorpay'' = None
         \<or> (\<exists>s. map_of (integrations ex_world_cached) ''Razorpay'' = Some s \<and>
                (\<not> enabled s \<or> \<not> truthy (opt_get (settings s) ''apiKey'')
                 \<or> \<not> truthy (opt_get (settings s) ''apiSecret''))))"
    by (simp add: ex_cached ex_env_lookup_down_def ex_defs)
  from off unavailable_never_cached [of ex_world_switched_off ex_env_stale]
  have s1: "getRazorpayInstance ex_env_stale ex_world_switched_off
      = (None, ex_world_switched_off\<lparr>queries := queries ex_world_switched_off
           @ [IntegrationFindUnique ''Razorpay''], razorpayInstance := None\<rparr>)"
    and n1: "queries (snd (getRazorpayInstance ex_env_later
        (ex_world_switched_off\<lparr>queries := queries ex_world_switched_off
           @ [IntegrationFindUnique ''Razorpay''], razorpayInstance := None\<rparr>)))
      = queries ex_world_switched_off
          @ [IntegrationFindUnique ''Razorpay'', IntegrationFindUnique ''Razorpay'']"
    by blast+
  from gone unavailable_never_cached [of ex_world_row_deleted ex_env_stale]
  have s2: "getRazorpayInstance ex_env_stale ex_world_row_deleted
      = (None, ex_world_row_deleted\<lparr>queries := queries ex_world_row_deleted
           @ [IntegrationFindUnique ''Razorpay''], razorpayInstance := None\<rparr>)"
    by blast
  from down unavailable_never_cached [of ex_world_cached ex_env_lookup_down]
  have s3: "getRazorpayInstance ex_env_lookup_down ex_world_cached
      = (None, ex_world_cached\<lparr>queries := queries ex_world_cached
           @ [IntegrationFindUnique ''Razorpay''], razorpayInstance := None\<rparr>)"
    by blast
  have 1: "getRazorpayInstance ex_env_stale ex_world_switched_off
     = (None, ex_world_switched_off\<lparr>queries := [IntegrationFindUnique ''Razorpay'',
                                                 IntegrationFindUnique ''Razorpay''],
                                      razorpayInstance := None\<rparr>)"
    unfolding s1 q by simp
  have 2: "queries (snd (getRazorpayInstance ex_env_later
        (snd (getRazorpayInstance ex_env_stale ex_world_switched_off))))
     = [IntegrationFindUnique ''Razorpay'', IntegrationFindUnique ''Razorpay'',
        IntegrationFindUnique ''Razorpay'']"
    by (simp only: s1 snd_conv n1) (simp add: q)
  have 3: "getRazorpayInstance ex_env_stale ex_world_row_deleted
     = (None, ex_world_row_deleted\<lparr>queries := [IntegrationFindUnique ''Razorpay'',
                                                IntegrationFindUnique ''Razorpay''],
                                     razorpayInstance := None\<rparr>)"
    unfolding s2 q by simp
  have 4: "getRazorpayInstance ex_env_lookup_down ex_world_cached
     = (None, ex_world_cached\<lparr>queries := [IntegrationFindUnique ''Razorpay'',
                                           IntegrationFindUnique ''Razorpay''],
                                razorpayInstance := None\<rparr>)"
    unfolding s3 q by simp
  have 5: "razorpayInstance ex_world_switched_off = Some ex_client"
    "razorpayInstance ex_world_row_deleted = Some ex_client"
    "razorpayInstance ex_world_cached = Some ex_client"
    "map_of (integrations ex_world_cached) ''Razorpay'' = Some ex_config"
    by (simp_all add: ex_switched_off ex_world_row_deleted_def ex_cached ex_world_def)
  from 1 2 3 4 5 show ?thesis by (intro conjI)
qed

section \<open>Order placement\<close>

text \<open>
  C2, as stated: every order \<open>placeOrder\<close> creates has at least one item. Nothing checks
  the payload's \<open>items\<close>: a guest checkout with an empty array is answered with 201 and
  persists an order with no items.
\<close>

theorem order_without_items:
  "fst (placeOrder ex_env ex_world (ex_guest [] ''card'' ''a@b.in''))
     = Json 201 (OrderPlaced \<lparr>order_id = ''64f0c0ffee0000000000a001'',
                              data = ex_data [] ''card'' ''Success''\<rparr>)
   \<and> map (\<lambda>row. items (data row))
         (orders (snd (placeOrder ex_env ex_world (ex_guest [] ''card'' ''a@b.in'')))) = [[]]"
  by (simp add: ex_placeOrder_empty) (simp add: ex_defs)

text \<open>
  C2, amended: every order \<open>placeOrder\<close> creates from a payload whose \<open>items\<close> array is not
  empty has at least one order item.
\<close>

theorem order_items_nonempty:
  assumes "placeOrder env w req = (resp, w')"
    and "orders w' \<noteq> orders w"
    and "get (body req) ''order'' = Inr od"
    and "get od ''items'' = Inr its"
    and "its \<noteq> JArr []"
  shows "\<exists>row. orders w' = orders w @ [row] \<and> items (data row) \<noteq> []"
proof -
  from placeOrder_created [OF assms(1,2)] assms(3,4) obtain xs ys d where
    xs: "its = JArr xs" and ys: "map_err order_item_of xs = Inr ys"
    and d: "order_data_of (opt_get (user req) ''id'') od ys = Inr d"
    and w': "orders w' = orders w @ [\<lparr>order_id = fresh_id env, data = d\<rparr>]"
    by auto
  from ys have "length ys = length xs"
    by (simp add: map_err_Inr list_all2_lengthD)
  with xs assms(5) have "ys \<noteq> []" by auto
  with d w' show ?thesis
    by (auto dest: order_data_of_Inr)
qed

theorem order_items_nonempty_witness:
  "\<exists>row. orders (snd (placeOrder ex_env ex_world (ex_guest [ex_item] ''cod'' ''a@b.in'')))
            = orders ex_world @ [row] \<and> items (data row) \<noteq> []"
  using order_items_nonempty [of ex_env ex_world "ex_guest [ex_item] ''cod'' ''a@b.in''"
      "fst (placeOrder ex_env ex_world (ex_guest [ex_item] ''cod'' ''a@b.in''))"
      "snd (placeOrder ex_env ex_world (ex_guest [ex_item] ''cod'' ''a@b.in''))"
      "ex_order [ex_item] ''cod''" "JArr [ex_item]"]
  by (simp add: ex_placeOrder_cod) (simp add: ex_defs)

text \<open>
  C3: when \<open>placeOrder\<close> has issued both writes, the order write succeeded and the
  activity-feed write failed with \<open>e\<close>, the answer is \<open>next(e)\<close>, not the 201 confirmation,
  although the order stays persisted; it is the very answer given when the order write
  itself fails with \<open>e\<close>.
\<close>

theorem activity_failure_fails_placement:
  assumes "placeOrder env w req = (resp, w')"
    and "queries w' = queries w @ [OrderCreate d, ActivityLogCreate m]"
    and "fault env (length (queries w)) (OrderCreate d) = None"
    and "fault env (Suc (length (queries w))) (ActivityLogCreate m) = Some e"
  shows "resp = Next e
       \<and> orders w' = orders w @ [\<lparr>order_id = fresh_id env, data = d\<rparr>]
       \<and> activityLogs w' = activityLogs w
       \<and> fst (placeOrder (env\<lparr>fault := \<lambda>n q. Some e\<rparr>) w req) = Next e"
  using assms
  apply (simp add: placeOrder_def Let_def split: sum.splits prod.splits if_splits)
  apply (auto simp: order_create_def activityLog_create_def run_query_def Let_def
      split: option.splits)
  done

theorem activity_failure_fails_placement_witness:
  "fst (placeOrder ex_env_feed_down ex_world (ex_guest [ex_item] ''cod'' ''a@b.in''))
     = Next (ExternalError None (Some ''feed unavailable''))
   \<and> orders (snd (placeOrder ex_env_feed_down ex_world (ex_guest [ex_item] ''cod'' ''a@b.in'')))
     = [\<lparr>order_id = ''64f0c0ffee0000000000a001'',
         data = ex_data [ex_order_item] ''cod'' ''Pending''\<rparr>]
   \<and> activityLogs
       (snd (placeOrder ex_env_feed_down ex_world (ex_guest [ex_item] ''cod'' ''a@b.in''))) = []
   \<and> fst (placeOrder ex_env_db_down ex_world (ex_guest [ex_item] ''cod'' ''a@b.in''))
     = Next (ExternalError None (Some ''feed unavailable''))"
  using activity_failure_fails_placement [of ex_env_feed_down ex_world
      "ex_guest [ex_item] ''cod'' ''a@b.in''"
      "fst (placeOrder ex_env_feed_down ex_world (ex_guest [ex_item] ''cod'' ''a@b.in''))"
      "snd (placeOrder ex_env_feed_down ex_world (ex_guest [ex_item] ''cod'' ''a@b.in''))"
      "ex_data [ex_order_item] ''cod'' ''Pending''"
      "''Someone in Pune just purchased a '' @ [CHR 0x22] @ ''Shirt'' @ [CHR 0x22] @ ''.''"
      "ExternalError None (Some ''feed unavailable'')"]
  by (simp add: ex_placeOrder_feed_down)
     (simp add: ex_world_def ex_env_feed_down_def ex_env_db_down_def ex_env_def)

text \<open>
  C4: the order \<open>placeOrder\<close> creates has payment status \<open>Pending\<close> when the payload's
  \<open>paymentType\<close> is the string \<open>cod\<close>, and \<open>Success\<close> for every other value.
\<close>

theorem payment_status_at_creation:
  assumes "placeOrder env w req = (resp, w')" and "orders w' \<noteq> orders w"
  shows "\<exists>od row. get (body req) ''order'' = Inr od \<and> orders w' = orders w @ [row] \<and>
           paymentStatus (data row) =
             (if opt_get od ''paymentType'' = JStr ''cod'' then ''Pending'' else ''Success'')"
proof -
  from placeOrder_created [OF assms] obtain od ys d where
    "get (body req) ''order'' = Inr od"
    "order_data_of (opt_get (user req) ''id'') od ys = Inr d"
    "orders w' = orders w @ [\<lparr>order_id = fresh_id env, data = d\<rparr>]"
    by blast
  then show ?thesis
    by (auto dest: order_data_of_Inr)
qed

theorem payment_status_at_creation_witness:
  "paymentStatus (data (last (orders (snd
      (placeOrder ex_env ex_world (ex_guest [ex_item] ''cod'' ''a@b.in'')))))) = ''Pending''
   \<and> paymentStatus (data (last (orders (snd
      (placeOrder ex_env ex_world (ex_guest [] ''card'' ''a@b.in'')))))) = ''Success''"
  using payment_status_at_creation [of ex_env ex_world "ex_guest [ex_item] ''cod'' ''a@b.in''"
      "fst (placeOrder ex_env ex_world (ex_guest [ex_item] ''cod'' ''a@b.in''))"
      "snd (placeOrder ex_env ex_world (ex_guest [ex_item] ''cod'' ''a@b.in''))"]
    payment_status_at_creation [of ex_env ex_world "ex_guest [] ''card'' ''a@b.in''"
      "fst (placeOrder ex_env ex_world (ex_guest [] ''card'' ''a@b.in''))"
      "snd (placeOrder ex_env ex_world (ex_guest [] ''card'' ''a@b.in''))"]
  by (simp add: ex_placeOrder_cod ex_placeOrder_empty) (simp add: ex_defs opt_get_def)

text \<open>
  C7: a request with no authenticated user and no guest details (or guest details without
  an e-mail address) is answered with 401 and the message that authentication is
  required, and leaves the process and the database as they were: no call is made to the
  persistence layer.
\<close>

theorem placeOrder_requires_identity:
  assumes "user req = JUndefined"
    and "get (body req) ''guestDetails'' = Inr guestDetails"
    and "\<not> truthy (opt_get guestDetails ''email'')"
  shows "placeOrder env w req
         = (Json 401 (Message ''Authentication is required to place an order.''), w)"
proof -
  from assms(2) obtain od where "get (body req) ''order'' = Inr od"
    using get_total by blast
  moreover have "opt_get (user req) ''id'' = JUndefined"
    using assms(1) by (simp add: opt_get_def)
  ultimately show ?thesis
    using assms(2,3) by (simp add: placeOrder_def)
qed

theorem placeOrder_requires_identity_witness:
  "placeOrder ex_env ex_world ex_anonymous
     = (Json 401 (Message ''Authentication is required to place an order.''), ex_world)"
  using placeOrder_requires_identity [of ex_anonymous JUndefined ex_env ex_world]
  by (simp add: ex_anonymous_def opt_get_def)




text \<open>
  C10: \<open>placeOrder\<close> reads \<open>guestDetails\<close> in the authentication check only. Two requests
  that pass the check, come from the same user (or from none) and differ at most in
  \<open>guestDetails\<close> are answered alike and leave the same database: nothing of
  \<open>guestDetails\<close> reaches a persisted record. The order of a guest checkout is persisted
  with \<open>userId\<close> undefined.
\<close>

theorem guestDetails_only_gate:
  assumes "body r1 = JObj kv1" and "body r2 = JObj kv2"
    and "user r1 = user r2"
    and "\<forall>k. k \<noteq> ''guestDetails'' \<longrightarrow> map_of kv1 k = map_of kv2 k"
    and "truthy (opt_get (user r1) ''id'')
         \<or> truthy (opt_get (opt_get (body r1) ''guestDetails'') ''email'')"
    and "truthy (opt_get (user r2) ''id'')
         \<or> truthy (opt_get (opt_get (body r2) ''guestDetails'') ''email'')"
  shows "placeOrder env w r1 = placeOrder env w r2
       \<and> (user r1 = JUndefined \<longrightarrow>
            orders (snd (placeOrder env w r1)) = orders w
            \<or> (\<exists>d. orders (snd (placeOrder env w r1))
                      = orders w @ [\<lparr>order_id = fresh_id env, data = d\<rparr>]
                    \<and> userId d = JUndefined))"
proof -
  obtain od where od1: "get (body r1) ''order'' = Inr od"
    using assms(1) by simp
  have od2: "get (body r2) ''order'' = Inr od"
    using od1 assms(1,2,4) by simp
  have g1: "get (body r1) ''guestDetails'' = Inr (opt_get (body r1) ''guestDetails'')"
    using od1 by (rule get_total)
  have g2: "get (body r2) ''guestDetails'' = Inr (opt_get (body r2) ''guestDetails'')"
    using od2 by (rule get_total)
  have eq: "placeOrder env w r1 = placeOrder env w r2"
    using assms(5,6) by (auto simp add: placeOrder_def od1 od2 g1 g2 assms(3))
  have guest: "orders (snd (placeOrder env w r1)) = orders w
      \<or> (\<exists>d. orders (snd (placeOrder env w r1))
                = orders w @ [\<lparr>order_id = fresh_id env, data = d\<rparr>]
              \<and> userId d = JUndefined)" if "user r1 = JUndefined"
  proof (cases "orders (snd (placeOrder env w r1)) = orders w")
    case True
    then show ?thesis by simp
  next
    case False
    from placeOrder_created [OF prod.collapse [symmetric] False] obtain od ys d where
      "order_data_of (opt_get (user r1) ''id'') od ys = Inr d"
      "orders (snd (placeOrder env w r1)) = orders w @ [\<lparr>order_id = fresh_id env, data = d\<rparr>]"
      by blast
    with that show ?thesis
      by (auto dest: order_data_of_Inr simp: opt_get_def)
  qed
  from eq guest show ?thesis by blast
qed

theorem guestDetails_only_gate_witness:
  "opt_get (body ex_guest_a) ''guestDetails'' = JObj [(''email'', JStr ''a@b.in'')]
   \<and> opt_get (body ex_guest_z) ''guestDetails'' = JObj [(''email'', JStr ''z@y.in'')]
   \<and> placeOrder ex_env ex_world ex_guest_a = placeOrder ex_env ex_world ex_guest_z
   \<and> map (\<lambda>row. userId (data row)) (orders (snd (placeOrder ex_env ex_world ex_guest_a)))
     = [JUndefined]"
proof -
  have a: "body ex_guest_a = JObj [(''order'', ex_order [ex_item] ''cod''),
             (''guestDetails'', JObj [(''email'', JStr ''a@b.in'')])]"
    and z: "body ex_guest_z = JObj [(''order'', ex_order [ex_item] ''cod''),
             (''guestDetails'', JObj [(''email'', JStr ''z@y.in'')])]"
    and u: "user ex_guest_a = user ex_guest_z"
    by (simp_all add: ex_guest_a_def ex_guest_z_def ex_guest_def)
  have same: "\<forall>k. k \<noteq> ''guestDetails'' \<longrightarrow>
      map_of [(''order'', ex_order [ex_item] ''cod''),
              (''guestDetails'', JObj [(''email'', JStr ''a@b.in'')])] k
      = map_of [(''order'', ex_order [ex_item] ''cod''),
                (''guestDetails'', JObj [(''email'', JStr ''z@y.in'')])] k"
    by simp
  have pa: "truthy (opt_get (user ex_guest_a) ''id'')
            \<or> truthy (opt_get (opt_get (body ex_guest_a) ''guestDetails'') ''email'')"
    and pz: "truthy (opt_get (user ex_guest_z) ''id'')
            \<or> truthy (opt_get (opt_get (body ex_guest_z) ''guestDetails'') ''email'')"
    by (simp_all add: a z opt_get_def)
  have run: "placeOrder ex_env ex_world ex_guest_a =
     (Json 201 (OrderPlaced \<lparr>order_id = ''64f0c0ffee0000000000a001'',
                             data = ex_data [ex_order_item] ''cod'' ''Pending''\<rparr>),
      ex_world\<lparr>orders := [\<lparr>order_id = ''64f0c0ffee0000000000a001'',
                             data = ex_data [ex_order_item] ''cod'' ''Pending''\<rparr>],
               activityLogs := [''Someone in Pune just purchased a '' @ [CHR 0x22]
                                @ ''Shirt'' @ [CHR 0x22] @ ''.''],
               queries := [OrderCreate (ex_data [ex_order_item] ''cod'' ''Pending''),
                           ActivityLogCreate (''Someone in Pune just purchased a ''
                                @ [CHR 0x22] @ ''Shirt'' @ [CHR 0x22] @ ''.'')]\<rparr>)"
    unfolding ex_guest_a_def by (rule ex_placeOrder_cod)
  from guestDetails_only_gate [OF a z u same pa pz, of ex_env ex_world]
  have eq: "placeOrder ex_env ex_world ex_guest_a = placeOrder ex_env ex_world ex_guest_z" ..
  have uid: "map (\<lambda>row. userId (data row))
               (orders (snd (placeOrder ex_env ex_world ex_guest_a))) = [JUndefined]"
    by (simp add: run ex_data_def)
  have ga: "opt_get (body ex_guest_a) ''guestDetails'' = JObj [(''email'', JStr ''a@b.in'')]"
    and gz: "opt_get (body ex_guest_z) ''guestDetails'' = JObj [(''email'', JStr ''z@y.in'')]"
    by (simp_all add: a z opt_get_def)
  from ga gz eq uid show ?thesis by (intro conjI)
qed

section \<open>Payment-intent creation\<close>

text \<open>
  C8, as stated: the amount sent is \<open>totalAmount\<close> times 100, rounded to the nearest
  integer, halves upwards. The code rounds twice: the product is first rounded to a
  double, and \<open>Math.round\<close> rounds that double. For the number 1.335 of a request body (the
  double \<open>1503076375634903 / 2\<^sup>5\<^sup>0\<close>) the exact product lies below 133.5 and its half-up
  rounding is 133; the double product is 133.5 and the amount sent is 134.
\<close>

theorem amount_not_exact_half_up:
  "get (body ex_payment_1335) ''totalAmount''
     = Inr (JNum (Fin (1503076375634903 / 1125899906842624)))
   \<and> sent (snd (createRazorpayOrder ex_env ex_world ex_payment_1335))
     = [(ex_client, \<lparr>amount = Fin 134, currency = ''INR'',
                     receipt = ''receipt_order_30010''\<rparr>)]
   \<and> \<lfloor>(1503076375634903 / 1125899906842624 :: rat) * 100 + 1 / 2\<rfloor> = 133"
proof -
  have 1: "get (body ex_payment_1335) ''totalAmount''
     = Inr (JNum (Fin (1503076375634903 / 1125899906842624)))"
    unfolding ex_payment_1335_def double_1_335 by simp
  have 2: "sent (snd (createRazorpayOrder ex_env ex_world ex_payment_1335))
     = [(ex_client, \<lparr>amount = Fin 134, currency = ''INR'',
                     receipt = ''receipt_order_30010''\<rparr>)]"
    by (simp add: ex_payment_1335_call)
  have 3: "\<lfloor>(1503076375634903 / 1125899906842624 :: rat) * 100 + 1 / 2\<rfloor> = 133"
    by (rule floor_unique) simp_all
  from 1 2 3 show ?thesis by (intro conjI)
qed

text \<open>
  C8, amended: whenever \<open>createRazorpayOrder\<close> sends a request to the payment processor,
  its amount is \<open>Math.round(totalAmount * 100)\<close> in the language's double arithmetic: for a
  number, the double nearest to the exact product of \<open>totalAmount\<close> and 100 (ties to the
  even neighbour), rounded to the nearest integer, upwards from a half. For \<open>totalAmount\<close> =
  19.999 the amount is 2000.
\<close>

theorem payment_amount_minor_units:
  assumes "createRazorpayOrder env w req = (resp, w')" and "sent w' \<noteq> sent w"
  shows "\<exists>amt client opts.
      get (body req) ''totalAmount'' = Inr amt \<and> sent w' = sent w @ [(client, opts)] \<and>
      amount opts = Math_round (js_mul (ToNumber (string_to_number env) amt) (Fin 100)) \<and>
      (\<forall>x p. amt = JNum (Fin x) \<longrightarrow> double_of_rat (x * 100) = Fin p
             \<longrightarrow> amount opts = Fin (of_int \<lfloor>p + 1 / 2\<rfloor>)) \<and>
      (amt = JNum (double_of_rat (19999 / 1000)) \<longrightarrow> amount opts = Fin 2000)"
proof -
  obtain amt where amt: "get (body req) ''totalAmount'' = Inr amt"
    using assms by (cases "get (body req) ''totalAmount''") (auto simp: createRazorpayOrder_def)
  obtain r w1 where w1: "getRazorpayInstance env w = (r, w1)"
    by (cases "getRazorpayInstance env w")
  then have s1: "sent w1 = sent w"
    using getRazorpayInstance_sent [of env w] by simp
  obtain r2 w2 where w2: "integration_findUnique env ''Razorpay'' w1 = (r2, w2)"
    by (cases "integration_findUnique env ''Razorpay'' w1")
  then have s2: "sent w2 = sent w"
    using integration_findUnique_sent [of env "''Razorpay''" w1] s1 by simp
  from assms amt w1 w2 s1 s2 obtain client opts where
    sent: "sent w' = sent w @ [(client, opts)]"
    and opts: "amount opts = Math_round (js_mul (ToNumber (string_to_number env) amt) (Fin 100))"
    by (auto simp: createRazorpayOrder_def Let_def
        split: sum.splits if_splits option.splits
        simp del: js_mul.simps Math_round.simps)
  have "amount opts = Fin (of_int \<lfloor>p + 1 / 2\<rfloor>)"
    if "amt = JNum (Fin x)" "double_of_rat (x * 100) = Fin p" for x p
    using that opts by simp
  moreover have "amount opts = Fin 2000" if "amt = JNum (double_of_rat (19999 / 1000))"
    using that opts by (simp only: double_19_999 ToNumber.simps round_19_999)
  ultimately show ?thesis
    using amt sent opts by blast
qed

theorem payment_amount_minor_units_witness:
  "get (body ex_payment) ''totalAmount'' = Inr (JNum (double_of_rat (19999 / 1000)))
   \<and> fst (createRazorpayOrder ex_env ex_world ex_payment)
     = Json 200 (PaymentIntent (JStr ''order_A1'') (JStr ''rzp_key''))
   \<and> sent (snd (createRazorpayOrder ex_env ex_world ex_payment))
     = [(ex_client, \<lparr>amount = Fin 2000, currency = ''INR'',
                     receipt = ''receipt_order_30010''\<rparr>)]"
  using payment_amount_minor_units [of ex_env ex_world ex_payment
      "fst (createRazorpayOrder ex_env ex_world ex_payment)"
      "snd (createRazorpayOrder ex_env ex_world ex_payment)"]
  by (simp add: ex_payment_call) (simp add: ex_payment_def)

text \<open>
  Nor is the amount the half-up rounding of the decimal the number was written as: for
  the double nearest to 1.005 the product is \<open>7072058789855231 / 2\<^sup>4\<^sup>6\<close> (printed as
  100.49999999999999), and the amount is 100.
\<close>

lemma amount_of_1_005:
  "Math_round (js_mul (double_of_rat (1005 / 1000)) (Fin 100)) = Fin 100"
proof -
  have a: "double_of_rat (1005 / 1000) = Fin (1131529406376837 / 1125899906842624)"
    using double_of_rat_eq [of 0 "1005 / 1000" 4526117625507348] by simp
  have b: "double_of_rat (1131529406376837 / 1125899906842624 * 100)
           = Fin (7072058789855231 / 70368744177664)"
    using double_of_rat_eq [of 6 "1131529406376837 / 1125899906842624 * 100" 7072058789855231]
    by simp
  have "\<lfloor>(7072058789855231 / 70368744177664 :: rat) + 1 / 2\<rfloor> = 100"
    by (rule floor_unique) simp_all
  then have "Math_round (Fin (7072058789855231 / 70368744177664)) = Fin 100"
    by (simp only: Math_round.simps) simp
  then show ?thesis
    by (simp only: a js_mul.simps b)
qed

end
